theory Spec2Isabelle
  imports Main
begin

section \<open>The login flow of LoginScreen.tsx\<close>

text \<open>
  The component \<open>LoginScreen\<close> keeps its state in React hooks and mutates it from event
  handlers and from callbacks deferred with \<open>setTimeout\<close>.  The embedding passes the
  state explicitly: each handler and each deferred callback is a function from state to
  state, the pending timeouts are a queue inside the state, and the clock advances by
  firing the timeouts that have come due.
\<close>

subsection \<open>Data\<close>

text \<open>
  \<open>LoginStep\<close> is a union of five string literals; at run time \<open>step\<close> is a string and
  the \<open>switch\<close> of \<open>renderStep\<close> has a \<open>default\<close> branch, so the step is kept as a string.
\<close>

type_synonym LoginStep = string

abbreviation INITIAL :: LoginStep where "INITIAL \<equiv> ''INITIAL''"
abbreviation FACIAL_RECOGNITION :: LoginStep where "FACIAL_RECOGNITION \<equiv> ''FACIAL_RECOGNITION''"
abbreviation MANUAL_DNI :: LoginStep where "MANUAL_DNI \<equiv> ''MANUAL_DNI''"
abbreviation MANUAL_CODE :: LoginStep where "MANUAL_CODE \<equiv> ''MANUAL_CODE''"
abbreviation SUCCESS :: LoginStep where "SUCCESS \<equiv> ''SUCCESS''"

text \<open>The \<open>type\<close> field of a notification.\<close>

datatype kind = success | error | info

text \<open>
  The message texts of the source, one constructor per call site of \<open>showNotification\<close>
  (the texts carry accents and pictographs; only their identity matters here):
  \<^item> \<open>CameraError\<close>: "Error al acceder a la camara. Cambiando a acceso manual..." (line 59)
  \<^item> \<open>FacialOk\<close>: "Reconocimiento facial exitoso" (line 62)
  \<^item> \<open>DniLength\<close>: "El DNI debe tener exactamente 8 digitos" (line 70)
  \<^item> \<open>SendingCode dni\<close>: "Enviando codigo a correo asociado al DNI $dni" (line 73)
  \<^item> \<open>EnterSixDigits\<close>: "Ingrese los 6 digitos del codigo" (line 108)
  \<^item> \<open>CodeCorrect\<close>: "Codigo correcto" (line 116)
  \<^item> \<open>CodeIncorrect\<close>: "Codigo incorrecto. Intente de nuevo" (line 119)
\<close>

datatype message =
    CameraError
  | FacialOk
  | DniLength
  | SendingCode string
  | EnterSixDigits
  | CodeCorrect
  | CodeIncorrect

type_synonym notice = "message \<times> kind option"

text \<open>
  A cell of the \<open>code\<close> array.  \<open>None\<close> is JavaScript's \<open>undefined\<close>, which only an
  assignment beyond the end of the array can produce.
\<close>

type_synonym cell = "string option"

text \<open>
  The closures handed to \<open>setTimeout\<close>, one constructor per call site, with the variables
  each closure captures:
  \<^item> \<open>ClearNotification\<close>: \<open>() => setNotification(null)\<close> (line 32)
  \<^item> \<open>FocusFirstCell\<close>: \<open>() => codeRefs.current[0]?.focus()\<close> (line 38)
  \<^item> \<open>CallOnLogin\<close>: \<open>() => onLogin("test_user", "test_pass")\<close> (lines 41-43)
  \<^item> \<open>CameraOutcome cameraFails\<close>: the closure of lines 56-65
  \<^item> \<open>GoToSuccess\<close>: \<open>() => setStep('SUCCESS')\<close> (lines 63 and 117)
  \<^item> \<open>CodeOutcome enteredCode\<close>: the closure of lines 113-123
\<close>

datatype callback =
    ClearNotification
  | FocusFirstCell
  | CallOnLogin
  | CameraOutcome bool
  | GoToSuccess
  | CodeOutcome string

text \<open>A pending timeout: the time at which it comes due, and its callback.\<close>

type_synonym timer = "nat \<times> callback"

text \<open>
  The state of the component.  \<open>codeRefs\<close> tells which entries of \<open>codeRefs.current\<close>
  hold an input element; \<open>focus\<close> is the cell whose \<open>focus()\<close> was called last;
  \<open>timers\<close> are the pending timeouts in the order they were scheduled; \<open>now\<close> is the
  clock in milliseconds; \<open>onLogin_calls\<close> lists the calls made to the prop \<open>onLogin\<close>.
\<close>

record state =
  step :: LoginStep
  dni :: string
  code :: "cell list"
  codeRefs :: "bool list"
  focus :: "nat option"
  isLoading :: bool
  notification :: "notice option"
  timers :: "timer list"
  now :: nat
  onLogin_calls :: "(string \<times> string) list"

definition init :: state where
  "init = \<lparr> step = INITIAL, dni = [], code = replicate 6 (Some []), codeRefs = [],
            focus = None, isLoading = False, notification = None, timers = [], now = 0,
            onLogin_calls = [] \<rparr>"

subsection \<open>JavaScript primitives\<close>

text \<open>\<open>setTimeout(cb, delay)\<close>: the callback joins the queue, due \<open>delay\<close> ms from now.\<close>

definition setTimeout :: "callback \<Rightarrow> nat \<Rightarrow> state \<Rightarrow> state" where
  "setTimeout cb delay s = s\<lparr>timers := timers s @ [(now s + delay, cb)]\<rparr>"

text \<open>
  \<open>a[i] = v\<close> on an array: inside the array it overwrites the element, beyond the end the
  array grows and the skipped elements read as \<open>undefined\<close>.
\<close>

definition js_set :: "cell list \<Rightarrow> nat \<Rightarrow> string \<Rightarrow> cell list" where
  "js_set a i v =
     (if i < length a then a[i := Some v]
      else a @ replicate (i - length a) None @ [Some v])"

text \<open>\<open>a.join('')\<close>: \<open>undefined\<close> joins as the empty string.\<close>

definition join :: "cell list \<Rightarrow> string" where
  "join a = concat (map (\<lambda>c. case c of None \<Rightarrow> [] | Some v \<Rightarrow> v) a)"

text \<open>\<open>v.slice(-1)\<close>: the last character of \<open>v\<close>, or the empty string.\<close>

definition slice_last :: "string \<Rightarrow> string" where
  "slice_last v = (if v = [] then [] else [last v])"

definition is_digit :: "char \<Rightarrow> bool" where
  "is_digit c = (c \<in> set ''0123456789'')"

text \<open>\<open>/\D/.test(v)\<close>: some character of \<open>v\<close> is not a digit.\<close>

definition test_nondigit :: "string \<Rightarrow> bool" where
  "test_nondigit v = list_ex (\<lambda>c. \<not> is_digit c) v"

text \<open>\<open>codeRefs.current[i]?.focus()\<close>: nothing happens when the entry holds no element.\<close>

definition focus_cell :: "nat \<Rightarrow> state \<Rightarrow> state" where
  "focus_cell i s =
     (if i < length (codeRefs s) \<and> codeRefs s ! i then s\<lparr>focus := Some i\<rparr> else s)"

subsection \<open>Handlers of LoginScreen\<close>

definition setStep :: "LoginStep \<Rightarrow> state \<Rightarrow> state" where
  "setStep st s = s\<lparr>step := st\<rparr>"

definition setDni :: "string \<Rightarrow> state \<Rightarrow> state" where
  "setDni v s = s\<lparr>dni := v\<rparr>"

definition showNotification :: "message \<Rightarrow> kind option \<Rightarrow> state \<Rightarrow> state" where
  "showNotification m t s =
     setTimeout ClearNotification 2500 (s\<lparr>notification := Some (m, t)\<rparr>)"

text \<open>
  \<open>startFacialRecognition\<close>; its argument is the value that \<open>Math.random() > 0.92\<close> takes
  in this call.
\<close>

definition startFacialRecognition :: "bool \<Rightarrow> state \<Rightarrow> state" where
  "startFacialRecognition cameraFails s =
     setTimeout (CameraOutcome cameraFails) 3000
       (s\<lparr>step := FACIAL_RECOGNITION, isLoading := True\<rparr>)"

definition handleDniSubmit :: "state \<Rightarrow> state" where
  "handleDniSubmit s =
     (if length (dni s) \<noteq> 8 then showNotification DniLength (Some error) s
      else setStep MANUAL_CODE (showNotification (SendingCode (dni s)) (Some info) s))"

definition validateCode :: "string \<Rightarrow> state \<Rightarrow> state" where
  "validateCode enteredCode s =
     (let s1 = s\<lparr>isLoading := True\<rparr> in
      if length enteredCode < 6
      then (showNotification EnterSixDigits (Some error) s1)\<lparr>isLoading := False\<rparr>
      else setTimeout (CodeOutcome enteredCode) 1500 s1)"

text \<open>
  \<open>handleCodeChange(e, i)\<close>; \<open>raw\<close> is \<open>e.target.value\<close>.  The index is a natural number:
  the cells are the elements of an array.
\<close>

definition handleCodeChange :: "string \<Rightarrow> nat \<Rightarrow> state \<Rightarrow> state" where
  "handleCodeChange raw i s =
     (let v = slice_last raw in
      if v = [] then
        (let s1 = s\<lparr>code := js_set (code s) i []\<rparr>
         in if i > 0 then focus_cell (i - 1) s1 else s1)
      else if test_nondigit v then s
      else
        (let newCode = js_set (code s) i v;
             s1 = s\<lparr>code := newCode\<rparr>;
             s2 = (if v \<noteq> [] \<and> i < 5 then focus_cell (i + 1) s1 else s1)
         in if i = 5 \<and> list_all (\<lambda>d. d \<noteq> Some []) newCode
            then validateCode (join newCode) s2 else s2))"

subsection \<open>Deferred callbacks\<close>

fun run_callback :: "callback \<Rightarrow> state \<Rightarrow> state" where
  "run_callback ClearNotification s = s\<lparr>notification := None\<rparr>"
| "run_callback FocusFirstCell s = focus_cell 0 s"
| "run_callback CallOnLogin s =
     s\<lparr>onLogin_calls := onLogin_calls s @ [(''test_user'', ''test_pass'')]\<rparr>"
| "run_callback (CameraOutcome cameraFails) s =
     (let s1 = s\<lparr>isLoading := False\<rparr> in
      if cameraFails
      then setStep MANUAL_DNI (showNotification CameraError (Some error) s1)
      else setTimeout GoToSuccess 1500 (showNotification FacialOk (Some success) s1))"
| "run_callback GoToSuccess s = setStep SUCCESS s"
| "run_callback (CodeOutcome enteredCode) s =
     (let s1 = s\<lparr>isLoading := False\<rparr> in
      if enteredCode = ''123456''
      then setTimeout GoToSuccess 1000 (showNotification CodeCorrect (Some success) s1)
      else focus_cell 0
             ((showNotification CodeIncorrect (Some error) s1)\<lparr>code := replicate 6 (Some [])\<rparr>))"

subsection \<open>Rendering and effects\<close>

text \<open>
  The effect of lines 36-45 runs after a render in which \<open>step\<close> (or the prop \<open>onLogin\<close>,
  taken to be the same function throughout) differs from the previous render.
\<close>

definition useEffect_step :: "state \<Rightarrow> state" where
  "useEffect_step s =
     (if step s = MANUAL_CODE then setTimeout FocusFirstCell 100 s
      else if step s = SUCCESS then setTimeout CallOnLogin 2500 s
      else s)"

text \<open>
  \<open>commit old s\<close>: React renders the state \<open>s\<close> that a handler or callback left, the
  previous render having shown \<open>old\<close>, and runs the effect when \<open>step\<close> changed.
\<close>

definition commit :: "state \<Rightarrow> state \<Rightarrow> state" where
  "commit old s = (if step s \<noteq> step old then useEffect_step s else s)"

text \<open>A handler called from an event: the handler runs, then React renders.\<close>

definition dispatch :: "(state \<Rightarrow> state) \<Rightarrow> state \<Rightarrow> state" where
  "dispatch h s = commit s (h s)"

text \<open>
  What \<open>renderStep\<close> returns: the view with the props it is given, each handler prop a
  function on the state.  The first prop of \<open>InitialView\<close> takes the outcome of
  \<open>Math.random() > 0.92\<close>.  \<open>None\<close> is \<open>null\<close>.
\<close>

datatype view =
    InitialView "bool \<Rightarrow> state \<Rightarrow> state" "state \<Rightarrow> state"
  | FacialRecognitionView bool "state \<Rightarrow> state"
  | ManualDniView string "string \<Rightarrow> state \<Rightarrow> state" "state \<Rightarrow> state" "state \<Rightarrow> state"
  | ManualCodeView "cell list" "bool list" "string \<Rightarrow> nat \<Rightarrow> state \<Rightarrow> state"
      "state \<Rightarrow> state" bool "state \<Rightarrow> state"
  | SuccessView

definition renderStep :: "state \<Rightarrow> view option" where
  "renderStep s =
     (if step s = INITIAL then
        Some (InitialView startFacialRecognition (setStep MANUAL_DNI))
      else if step s = FACIAL_RECOGNITION then
        Some (FacialRecognitionView (isLoading s) (setStep INITIAL))
      else if step s = MANUAL_DNI then
        Some (ManualDniView (dni s) setDni handleDniSubmit (setStep INITIAL))
      else if step s = MANUAL_CODE then
        Some (ManualCodeView (code s) (codeRefs s) handleCodeChange
                (\<lambda>u. validateCode (join (code s)) u) (isLoading s) (setStep MANUAL_DNI))
      else if step s = SUCCESS then Some SuccessView
      else None)"

text \<open>The prop \<open>onGoBack\<close> of a view.\<close>

fun onGoBack :: "view \<Rightarrow> (state \<Rightarrow> state) option" where
  "onGoBack (InitialView start manual) = None"
| "onGoBack (FacialRecognitionView loading back) = Some back"
| "onGoBack (ManualDniView d setd submit back) = Some back"
| "onGoBack (ManualCodeView c refs change validate loading back) = Some back"
| "onGoBack SuccessView = None"

text \<open>\<open>goBack\<close>: the \<open>onGoBack\<close> prop of the rendered view is invoked.\<close>

definition goBack :: "state \<Rightarrow> state" where
  "goBack s =
     (case renderStep s of
        None \<Rightarrow> s
      | Some v \<Rightarrow> (case onGoBack v of None \<Rightarrow> s | Some h \<Rightarrow> dispatch h s))"

subsection \<open>The event loop\<close>

text \<open>
  The timeout that fires next: the one due first and, among those due at the same time,
  the one scheduled first.
\<close>

fun earliest :: "timer list \<Rightarrow> timer option" where
  "earliest [] = None"
| "earliest (x # xs) =
     (case earliest xs of
        None \<Rightarrow> Some x
      | Some y \<Rightarrow> if fst x \<le> fst y then Some x else Some y)"

text \<open>
  \<open>fire tm s\<close>: the timeout leaves the queue, the clock reaches its due time, its callback
  runs, and React renders.  Nothing in the source ever removes a timeout from the queue in
  another way: there is no call of \<open>clearTimeout\<close>.
\<close>

definition fire :: "timer \<Rightarrow> state \<Rightarrow> state" where
  "fire tm s =
     (let s0 = s\<lparr>timers := remove1 tm (timers s), now := max (now s) (fst tm)\<rparr>
      in commit s0 (run_callback (snd tm) s0))"

text \<open>
  Termination of the event loop: every callback schedules less than it weighs.
\<close>

fun weight :: "callback \<Rightarrow> nat" where
  "weight ClearNotification = 1"
| "weight FocusFirstCell = 1"
| "weight CallOnLogin = 1"
| "weight GoToSuccess = 2"
| "weight (CameraOutcome b) = 4"
| "weight (CodeOutcome e) = 4"

definition pending_weight :: "state \<Rightarrow> nat" where
  "pending_weight s = sum_list (map (\<lambda>tm. weight (snd tm)) (timers s))"

lemma earliest_mem: "earliest xs = Some tm \<Longrightarrow> tm \<in> set xs"
  by (induction xs arbitrary: tm) (auto split: option.splits if_splits)

lemma earliest_None: "earliest xs = None \<longleftrightarrow> xs = []"
  by (cases xs) (auto split: option.splits)

lemma weight_remove1:
  "tm \<in> set xs \<Longrightarrow>
   sum_list (map (\<lambda>tm. weight (snd tm)) xs) =
   weight (snd tm) + sum_list (map (\<lambda>tm. weight (snd tm)) (remove1 tm xs))"
  by (induction xs) auto

lemma fire_weight:
  assumes "tm \<in> set (timers s)"
  shows "pending_weight (fire tm s) < pending_weight s"
proof -
  obtain d cb where tm: "tm = (d, cb)" by (cases tm)
  have w: "pending_weight s =
           weight cb + sum_list (map (\<lambda>tm. weight (snd tm)) (remove1 tm (timers s)))"
    using weight_remove1 [OF assms] by (simp add: pending_weight_def tm)
  show ?thesis
    unfolding w
    by (cases cb)
       (simp_all add: tm fire_def commit_def useEffect_step_def pending_weight_def
          setTimeout_def showNotification_def setStep_def focus_cell_def Let_def)
qed

text \<open>
  \<open>advance t s\<close>: the clock runs up to time \<open>t\<close>; every timeout that is due by then fires,
  in order, the ones scheduled on the way included.
\<close>

function advance :: "nat \<Rightarrow> state \<Rightarrow> state" where
  "advance t s =
     (case earliest (timers s) of
        None \<Rightarrow> s\<lparr>now := max (now s) t\<rparr>
      | Some tm \<Rightarrow>
          if fst tm \<le> t then advance t (fire tm s) else s\<lparr>now := max (now s) t\<rparr>)"
  by pat_completeness auto
termination
  by (relation "measure (\<lambda>(t, s). pending_weight s)")
     (auto intro: fire_weight earliest_mem)

declare advance.simps [simp del]

subsection \<open>User events\<close>

text \<open>
  \<open>FacialRecognitionView\<close>: its only control is a button whose \<open>onClick\<close> is the prop
  \<open>onGoBack\<close> and which is disabled while the prop \<open>isLoading\<close> is true.
\<close>

definition FacialRecognitionView_click :: "bool \<Rightarrow> (state \<Rightarrow> state) \<Rightarrow> (state \<Rightarrow> state) option" where
  "FacialRecognitionView_click loading back = (if loading then None else Some back)"

text \<open>
  Modelled from the spec: \<open>ManualCodeView\<close> is imported by LoginScreen.tsx but is not
  among the sources.  It is given \<open>isLoading\<close> and \<open>onGoBack\<close>, as \<open>FacialRecognitionView\<close>
  is; the transition table of the spec has "go back" as an event of ManualCode with no
  condition, so its back control is taken to call \<open>onGoBack\<close> whenever the view is on
  screen, a verification pending or not.
\<close>

definition ManualCodeView_click :: "bool \<Rightarrow> (state \<Rightarrow> state) \<Rightarrow> (state \<Rightarrow> state) option" where
  "ManualCodeView_click loading back = Some back"

text \<open>
  What pressing "back" calls in a view.  \<open>ManualDniView\<close> is not among the sources
  either; it is not given \<open>isLoading\<close>, and its \<open>onGoBack\<close> may be called whenever it is
  on screen.
\<close>

fun back_button :: "view \<Rightarrow> (state \<Rightarrow> state) option" where
  "back_button (FacialRecognitionView loading back) = FacialRecognitionView_click loading back"
| "back_button (ManualCodeView c refs change validate loading back) =
     ManualCodeView_click loading back"
| "back_button v = onGoBack v"

definition press_back :: "state \<Rightarrow> state" where
  "press_back s =
     (case renderStep s of
        None \<Rightarrow> s
      | Some v \<Rightarrow> (case back_button v of None \<Rightarrow> s | Some h \<Rightarrow> dispatch h s))"

text \<open>
  What the user and the environment can do: press one of the two buttons of the initial
  view (the first with the outcome of the random draw), press "back", type into the DNI
  field, submit the DNI, change the text of a code cell, press "verify"; the views attach
  or detach the input elements of \<open>codeRefs.current\<close>; time passes.  Each event calls the
  handler that \<open>renderStep\<close> passes to the views for it.  Except for the button of
  \<open>FacialRecognitionView\<close>, a handler may be called in every state: this covers whatever
  the views that are not among the sources do.
\<close>

datatype event =
    StartFacial bool
  | ChooseManual
  | GoBack
  | TypeDni string
  | SubmitDni
  | Input string nat
  | Verify
  | AttachRefs "bool list"
  | Wait nat

fun apply_event :: "event \<Rightarrow> state \<Rightarrow> state" where
  "apply_event (StartFacial r) s = dispatch (startFacialRecognition r) s"
| "apply_event ChooseManual s = dispatch (setStep MANUAL_DNI) s"
| "apply_event GoBack s = press_back s"
| "apply_event (TypeDni v) s = dispatch (setDni v) s"
| "apply_event SubmitDni s = dispatch handleDniSubmit s"
| "apply_event (Input raw i) s = dispatch (handleCodeChange raw i) s"
| "apply_event Verify s = dispatch (validateCode (join (code s))) s"
| "apply_event (AttachRefs r) s = s\<lparr>codeRefs := r\<rparr>"
| "apply_event (Wait d) s = advance (now s + d) s"

definition run :: "event list \<Rightarrow> state \<Rightarrow> state" where
  "run es s = fold apply_event es s"

subsection \<open>Observations used in the statements\<close>

text \<open>
  The verification probes in flight: the arguments of the pending \<open>CodeOutcome\<close>
  timeouts, in the order \<open>validateCode\<close> scheduled them.
\<close>

fun probe_arg :: "timer \<Rightarrow> string option" where
  "probe_arg (d, CodeOutcome e) = Some e"
| "probe_arg (d, cb) = None"

definition pending_probes :: "state \<Rightarrow> string list" where
  "pending_probes s = List.map_filter probe_arg (timers s)"

text \<open>The pending expiry events of the notification.\<close>

definition pending_expiries :: "state \<Rightarrow> nat" where
  "pending_expiries s = count_list (map snd (timers s)) ClearNotification"

text \<open>
  The user types the strings \<open>ds\<close> into the cells 0, 1, 2, ... in this order; each change
  event calls \<open>handleCodeChange\<close> and React renders.
\<close>

definition enter_digits :: "string list \<Rightarrow> state \<Rightarrow> state" where
  "enter_digits ds s =
     fold (\<lambda>p. dispatch (handleCodeChange (snd p) (fst p))) (enumerate 0 ds) s"

text \<open>The shape of the code array: six cells, each the empty string or one digit.\<close>

definition cell_ok :: "cell \<Rightarrow> bool" where
  "cell_ok c =
     (case c of None \<Rightarrow> False | Some v \<Rightarrow> v = [] \<or> (length v = 1 \<and> is_digit (hd v)))"

definition code_ok :: "cell list \<Rightarrow> bool" where
  "code_ok c = (length c = 6 \<and> list_all cell_ok c)"

text \<open>An event addresses one of the six cells.\<close>

fun cell_index_ok :: "event \<Rightarrow> bool" where
  "cell_index_ok (Input raw i) = (i < 6)"
| "cell_index_ok e = True"

text \<open>Whether the view rendered in a state has a way back.\<close>

definition offers_goBack :: "state \<Rightarrow> bool" where
  "offers_goBack s =
     (case renderStep s of
        None \<Rightarrow> False
      | Some v \<Rightarrow> (case onGoBack v of None \<Rightarrow> False | Some h \<Rightarrow> True))"



text \<open>
  Two notifications one second apart: the second is shown 1500 ms before the expiry of
  the first.
\<close>

definition two_notices :: state where
  "two_notices =
     showNotification CodeIncorrect (Some error)
       (advance 1000 (showNotification (SendingCode ''12345678'') (Some info) init))"

section \<open>Properties\<close>

subsection \<open>The event loop, one step at a time\<close>

lemma advance_idle: "timers s = [] \<Longrightarrow> advance t s = s\<lparr>now := max (now s) t\<rparr>"
  by (subst advance.simps) simp

lemma advance_wait:
  "earliest (timers s) = Some tm \<Longrightarrow> t < fst tm \<Longrightarrow> advance t s = s\<lparr>now := max (now s) t\<rparr>"
  by (subst advance.simps) simp

lemma advance_fire:
  "earliest (timers s) = Some tm \<Longrightarrow> fst tm \<le> t \<Longrightarrow> advance t s = advance t (fire tm s)"
  by (subst advance.simps) simp

lemma earliest_least: "earliest xs = Some tm \<Longrightarrow> x \<in> set xs \<Longrightarrow> fst tm \<le> fst x"
proof (induction xs arbitrary: tm)
  case Nil
  then show ?case by simp
next
  case (Cons a xs)
  show ?case
  proof (cases "earliest xs")
    case None
    then show ?thesis using Cons.prems by (simp add: earliest_None)
  next
    case (Some y)
    then show ?thesis
      using Cons.prems Cons.IH [OF Some] by (auto split: if_splits)
  qed
qed

text \<open>Once the clock has reached \<open>t\<close>, no timeout due by \<open>t\<close> is still pending.\<close>

lemma advance_fires_all_due: "tm \<in> set (timers (advance t s)) \<Longrightarrow> t < fst tm"
proof (induction t s rule: advance.induct)
  case (1 t s)
  show ?case
  proof (cases "earliest (timers s)")
    case None
    then show ?thesis using 1(2) by (simp add: earliest_None advance_idle)
  next
    case (Some first)
    show ?thesis
    proof (cases "fst first \<le> t")
      case True
      then show ?thesis using 1 Some by (simp add: advance_fire)
    next
      case False
      then have "tm \<in> set (timers s)" using 1(2) Some by (simp add: advance_wait)
      then show ?thesis using earliest_least [OF Some] False by fastforce
    qed
  qed
qed

subsection \<open>Fields that the helpers leave alone\<close>

lemma focus_cell_fields [simp]:
  "code (focus_cell i s) = code s" "timers (focus_cell i s) = timers s"
  "step (focus_cell i s) = step s" "now (focus_cell i s) = now s"
  "notification (focus_cell i s) = notification s"
  "isLoading (focus_cell i s) = isLoading s"
  by (simp_all add: focus_cell_def)

lemma validateCode_fields [simp]:
  "code (validateCode e s) = code s" "step (validateCode e s) = step s"
  by (simp_all add: validateCode_def showNotification_def setTimeout_def Let_def)

lemma handleCodeChange_step [simp]: "step (handleCodeChange raw i s) = step s"
  by (simp add: handleCodeChange_def Let_def)

lemma dispatch_handleCodeChange:
  "dispatch (handleCodeChange raw i) s = handleCodeChange raw i s"
  by (simp add: dispatch_def commit_def)

lemma commit_code [simp]: "code (commit old s) = code s"
  by (simp add: commit_def useEffect_step_def setTimeout_def)

lemma dispatch_code [simp]: "code (dispatch h s) = code (h s)"
  by (simp add: dispatch_def)

lemma replicate_6: "replicate 6 x = [x, x, x, x, x, x]"
  by (simp add: numeral_eq_Suc)

subsection \<open>Entering the code\<close>

text \<open>
  C5.  Whatever the cell index and the state, a change event whose text ends in a
  character that is not a digit (in particular: whose text is one character that is not
  a digit) is rejected by \<open>handleCodeChange\<close>: the code array, and with it the whole
  state, stays as it was.
\<close>

theorem handleCodeChange_rejects_nondigit:
  "raw \<noteq> [] \<Longrightarrow> \<not> is_digit (last raw) \<Longrightarrow> handleCodeChange raw i s = s"
  by (simp add: handleCodeChange_def slice_last_def test_nondigit_def)

theorem handleCodeChange_rejects_nondigit_witness:
  "''x'' \<noteq> [] \<and> \<not> is_digit (last ''x'') \<and> handleCodeChange ''x'' 3 init = init"
proof -
  have a: "''x'' \<noteq> []" by simp
  have b: "\<not> is_digit (last ''x'')" by (simp add: is_digit_def)
  show ?thesis using a b handleCodeChange_rejects_nondigit [OF a b, of 3 init] by simp
qed

lemma pending_probes_append [simp]:
  "List.map_filter probe_arg (xs @ ys) =
   List.map_filter probe_arg xs @ List.map_filter probe_arg ys"
  by (simp add: List.map_filter_def)

lemma handleCodeChange_code:
  "is_digit c \<Longrightarrow> code (handleCodeChange [c] i s) = js_set (code s) i [c]"
  by (simp add: handleCodeChange_def slice_last_def test_nondigit_def Let_def)

text \<open>
  Which probes a change event starts: one, with the joined cells, when the text ends in
  a digit, the index is 5, no cell is empty afterwards and the joined cells have at least
  six characters; none otherwise.
\<close>

lemma handleCodeChange_probes:
  "pending_probes (handleCodeChange raw i s) =
   pending_probes s @
   (if raw \<noteq> [] \<and> is_digit (last raw) \<and> i = 5 \<and>
       list_all (\<lambda>d. d \<noteq> Some []) (js_set (code s) i [last raw]) \<and>
       6 \<le> length (join (js_set (code s) i [last raw]))
    then [join (js_set (code s) i [last raw])] else [])"
  by (auto simp: handleCodeChange_def slice_last_def test_nondigit_def Let_def
      validateCode_def showNotification_def setTimeout_def pending_probes_def
      List.map_filter_def)

lemma handleCodeChange_fires_only_complete:
  "pending_probes (handleCodeChange raw i s) \<noteq> pending_probes s \<Longrightarrow>
   i = 5 \<and> list_all (\<lambda>d. d \<noteq> Some []) (code (handleCodeChange raw i s))"
  by (auto simp: handleCodeChange_def slice_last_def test_nondigit_def Let_def
      validateCode_def showNotification_def setTimeout_def pending_probes_def
      List.map_filter_def split: if_splits)

lemma digits_1_to_6:
  "is_digit CHR ''1''" "is_digit CHR ''2''" "is_digit CHR ''3''"
  "is_digit CHR ''4''" "is_digit CHR ''5''" "is_digit CHR ''6''"
  by (simp_all add: is_digit_def)

lemma enter_digits_Nil: "enter_digits [] s = s"
  by (simp add: enter_digits_def)

lemma enter_digits_snoc:
  "enter_digits (ds @ [d]) s = handleCodeChange d (length ds) (enter_digits ds s)"
  by (simp add: enter_digits_def enumerate_append_eq dispatch_handleCodeChange)

text \<open>
  C4.  From a state whose six cells are empty, typing "1", "2", "3", "4", "5", "6" into
  the cells 0 to 5 in this order starts exactly one verification probe, with the argument
  "123456": the probes in flight afterwards are the earlier ones and this one, and none of
  the first five entries starts a probe.  In any state, a change event starts a probe only
  if its index is 5 and no cell is empty after the update.
\<close>

theorem six_digits_verify_once:
  "code s = replicate 6 (Some []) \<Longrightarrow>
   pending_probes (enter_digits [''1'', ''2'', ''3'', ''4'', ''5'', ''6''] s) =
     pending_probes s @ [''123456''] \<and>
   (\<forall>k<6. pending_probes (enter_digits (take k [''1'', ''2'', ''3'', ''4'', ''5'', ''6'']) s) =
     pending_probes s) \<and>
   (pending_probes (handleCodeChange raw i u) \<noteq> pending_probes u \<longrightarrow>
      i = 5 \<and> list_all (\<lambda>d. d \<noteq> Some []) (code (handleCodeChange raw i u)))"
proof -
  assume empty: "code s = replicate 6 (Some [])"
  note step = handleCodeChange_code handleCodeChange_probes digits_1_to_6 js_set_def join_def
  have s0: "code (enter_digits [] s) = [Some [], Some [], Some [], Some [], Some [], Some []]"
    "pending_probes (enter_digits [] s) = pending_probes s"
    using empty by (simp_all add: enter_digits_Nil replicate_6)
  have s1: "code (enter_digits [''1''] s) =
      [Some ''1'', Some [], Some [], Some [], Some [], Some []]"
    "pending_probes (enter_digits [''1''] s) = pending_probes s"
    using enter_digits_snoc [of "[]" "''1''" s] s0 by (simp_all add: step)
  have s2: "code (enter_digits [''1'', ''2''] s) =
      [Some ''1'', Some ''2'', Some [], Some [], Some [], Some []]"
    "pending_probes (enter_digits [''1'', ''2''] s) = pending_probes s"
    using enter_digits_snoc [of "[''1'']" "''2''" s] s1 by (simp_all add: step)
  have s3: "code (enter_digits [''1'', ''2'', ''3''] s) =
      [Some ''1'', Some ''2'', Some ''3'', Some [], Some [], Some []]"
    "pending_probes (enter_digits [''1'', ''2'', ''3''] s) = pending_probes s"
    using enter_digits_snoc [of "[''1'', ''2'']" "''3''" s] s2 by (simp_all add: step)
  have s4: "code (enter_digits [''1'', ''2'', ''3'', ''4''] s) =
      [Some ''1'', Some ''2'', Some ''3'', Some ''4'', Some [], Some []]"
    "pending_probes (enter_digits [''1'', ''2'', ''3'', ''4''] s) = pending_probes s"
    using enter_digits_snoc [of "[''1'', ''2'', ''3'']" "''4''" s] s3 by (simp_all add: step)
  have s5: "code (enter_digits [''1'', ''2'', ''3'', ''4'', ''5''] s) =
      [Some ''1'', Some ''2'', Some ''3'', Some ''4'', Some ''5'', Some []]"
    "pending_probes (enter_digits [''1'', ''2'', ''3'', ''4'', ''5''] s) = pending_probes s"
    using enter_digits_snoc [of "[''1'', ''2'', ''3'', ''4'']" "''5''" s] s4
    by (simp_all add: step)
  have s6: "pending_probes (enter_digits [''1'', ''2'', ''3'', ''4'', ''5'', ''6''] s) =
      pending_probes s @ [''123456'']"
    using enter_digits_snoc [of "[''1'', ''2'', ''3'', ''4'', ''5'']" "''6''" s] s5
    by (simp add: step)
  have before: "pending_probes (enter_digits (take k [''1'', ''2'', ''3'', ''4'', ''5'', ''6'']) s) =
      pending_probes s" if "k < 6" for k
  proof -
    from that have "k = 0 \<or> k = 1 \<or> k = 2 \<or> k = 3 \<or> k = 4 \<or> k = 5" by arith
    then show ?thesis using s0 s1 s2 s3 s4 s5 by (auto simp: take_Suc_Cons numeral_eq_Suc)
  qed
  show ?thesis
    using s6 before handleCodeChange_fires_only_complete [of raw i u] by blast
qed

theorem six_digits_verify_once_witness:
  "code init = replicate 6 (Some []) \<and>
   pending_probes (enter_digits [''1'', ''2'', ''3'', ''4'', ''5'', ''6''] init) = [''123456''] \<and>
   pending_probes
     (handleCodeChange ''6'' 5
        (init\<lparr>code := [Some ''1'', Some ''2'', Some ''3'', Some ''4'', Some ''5'', Some []]\<rparr>))
     \<noteq> pending_probes
         (init\<lparr>code := [Some ''1'', Some ''2'', Some ''3'', Some ''4'', Some ''5'', Some []]\<rparr>) \<and>
   list_all (\<lambda>d. d \<noteq> Some [])
     (code (handleCodeChange ''6'' 5
        (init\<lparr>code := [Some ''1'', Some ''2'', Some ''3'', Some ''4'', Some ''5'', Some []]\<rparr>)))"
proof -
  let ?u = "init\<lparr>code := [Some ''1'', Some ''2'', Some ''3'', Some ''4'', Some ''5'', Some []]\<rparr>"
  have a: "code init = replicate 6 (Some [])" by (simp add: init_def)
  have b: "pending_probes init = []" by (simp add: init_def pending_probes_def List.map_filter_def)
  have c: "pending_probes (handleCodeChange ''6'' 5 ?u) \<noteq> pending_probes ?u"
    by (simp add: handleCodeChange_probes digits_1_to_6 js_set_def join_def)
  show ?thesis
    using six_digits_verify_once [OF a, of "''6''" 5 ?u] a b c by simp
qed

subsection \<open>The shape of the code array\<close>

lemma cell_ok_digit: "is_digit c \<Longrightarrow> cell_ok (Some [c])"
  by (simp add: cell_ok_def)

lemma digit_of_test: "\<not> test_nondigit [c] \<Longrightarrow> is_digit c"
  by (simp add: test_nondigit_def)

lemma code_ok_js_set:
  "code_ok c \<Longrightarrow> i < 6 \<Longrightarrow> cell_ok (Some v) \<Longrightarrow> code_ok (js_set c i v)"
  by (auto simp: code_ok_def js_set_def list_all_iff dest: subsetD [OF set_update_subset_insert])

lemma handleCodeChange_code_ok:
  assumes "code_ok (code s)" "i < 6"
  shows "code_ok (code (handleCodeChange raw i s))"
proof -
  have e: "cell_ok (Some [])" by (simp add: cell_ok_def)
  show ?thesis
    using assms code_ok_js_set [OF assms e]
    by (auto simp: handleCodeChange_def slice_last_def Let_def
        intro!: code_ok_js_set cell_ok_digit digit_of_test)
qed

lemma code_ok_empty: "code_ok (replicate 6 (Some []))"
  by (simp add: code_ok_def cell_ok_def list_all_iff)

lemma run_callback_code_ok:
  "code_ok (code s) \<Longrightarrow> code_ok (code (run_callback cb s))"
  by (cases cb)
     (simp_all add: showNotification_def setTimeout_def setStep_def Let_def code_ok_empty)

lemma fire_code_ok: "code_ok (code s) \<Longrightarrow> code_ok (code (fire tm s))"
  by (simp add: fire_def Let_def run_callback_code_ok)

lemma advance_code_ok: "code_ok (code s) \<Longrightarrow> code_ok (code (advance t s))"
proof (induction t s rule: advance.induct)
  case (1 t s)
  show ?case
  proof (cases "earliest (timers s)")
    case None
    then show ?thesis using 1(2) by (simp add: earliest_None advance_idle)
  next
    case (Some tm)
    show ?thesis
    proof (cases "fst tm \<le> t")
      case True
      have "code_ok (code (advance t (fire tm s)))"
        using 1(1) [OF Some True] fire_code_ok [OF 1(2)] by simp
      then show ?thesis using Some True by (simp add: advance_fire)
    next
      case False
      then show ?thesis using Some 1(2) by (simp add: advance_wait)
    qed
  qed
qed

lemma press_back_code [simp]: "code (press_back s) = code s"
  by (simp add: press_back_def renderStep_def setStep_def FacialRecognitionView_click_def
      ManualCodeView_click_def)

lemma apply_event_code_ok:
  assumes "code_ok (code s)" "cell_index_ok e"
  shows "code_ok (code (apply_event e s))"
  using assms
  by (cases e)
     (simp_all add: setStep_def setDni_def startFacialRecognition_def handleDniSubmit_def
        showNotification_def setTimeout_def handleCodeChange_code_ok advance_code_ok)

text \<open>
  C8.  In every state reached from the initial one by user events that address the cells
  0 to 5, and by the timeouts firing in between, the code array has exactly six cells and
  each cell is the empty string or one digit.
\<close>

theorem code_shape_invariant:
  "list_all cell_index_ok es \<Longrightarrow> code_ok (code (run es init))"
proof -
  have "code_ok (code s) \<Longrightarrow> list_all cell_index_ok es \<Longrightarrow>
        code_ok (code (fold apply_event es s))" for s
    by (induction es arbitrary: s) (simp_all add: apply_event_code_ok)
  moreover have "code_ok (code init)" by (simp add: init_def code_ok_empty)
  ultimately show "list_all cell_index_ok es \<Longrightarrow> code_ok (code (run es init))"
    by (simp add: run_def)
qed

theorem code_shape_invariant_witness:
  "list_all cell_index_ok
     [ChooseManual, TypeDni ''12345678'', SubmitDni, Input ''7'' 2, Input ''x'' 3, Wait 5000] \<and>
   code_ok (code (run
     [ChooseManual, TypeDni ''12345678'', SubmitDni, Input ''7'' 2, Input ''x'' 3, Wait 5000]
     init))"
proof -
  have a: "list_all cell_index_ok
     [ChooseManual, TypeDni ''12345678'', SubmitDni, Input ''7'' 2, Input ''x'' 3, Wait 5000]"
    by simp
  show ?thesis using a code_shape_invariant [OF a] by simp
qed

subsection \<open>Verifying the code\<close>



text \<open>
  The same, end to end, in a state with no other timeout pending: 1500 ms after
  \<open>validateCode\<close> the notification is shown, and the step changes 1000 ms later,
  no earlier.
\<close>

lemma validateCode_reference_code_run:
  "timers s = [] \<Longrightarrow> step s = MANUAL_CODE \<Longrightarrow>
   notification (advance (now s + 1500) (validateCode ''123456'' s)) =
     Some (CodeCorrect, Some success) \<and>
   step (advance (now s + 2499) (validateCode ''123456'' s)) = MANUAL_CODE \<and>
   step (advance (now s + 2500) (validateCode ''123456'' s)) = SUCCESS"
  by (simp add: validateCode_def advance_fire advance_wait advance_idle fire_def commit_def
      useEffect_step_def showNotification_def setTimeout_def setStep_def Let_def)

subsection \<open>Submitting the DNI\<close>

text \<open>
  C6.  Submitting a DNI whose length is not 8 shows the error notification (and schedules
  its expiry) and changes nothing else: no step transition.  Submitting a DNI of length 8
  shows the info notification and moves to \<open>MANUAL_CODE\<close>.  Only the length is looked at.
\<close>

theorem handleDniSubmit_length_only:
  "(length (dni s) \<noteq> 8 \<longrightarrow>
      dispatch handleDniSubmit s =
        s\<lparr>notification := Some (DniLength, Some error),
          timers := timers s @ [(now s + 2500, ClearNotification)]\<rparr>) \<and>
   (length (dni s) = 8 \<longrightarrow>
      step (dispatch handleDniSubmit s) = MANUAL_CODE \<and>
      notification (dispatch handleDniSubmit s) = Some (SendingCode (dni s), Some info))"
  by (simp add: dispatch_def commit_def handleDniSubmit_def showNotification_def
      setTimeout_def setStep_def useEffect_step_def)

theorem handleDniSubmit_length_only_witness:
  "length (dni (init\<lparr>step := MANUAL_DNI, dni := ''1234567''\<rparr>)) \<noteq> 8 \<and>
   step (dispatch handleDniSubmit (init\<lparr>step := MANUAL_DNI, dni := ''1234567''\<rparr>)) = MANUAL_DNI \<and>
   notification (dispatch handleDniSubmit (init\<lparr>step := MANUAL_DNI, dni := ''1234567''\<rparr>)) =
     Some (DniLength, Some error) \<and>
   length (dni (init\<lparr>step := MANUAL_DNI, dni := ''12345678''\<rparr>)) = 8 \<and>
   step (dispatch handleDniSubmit (init\<lparr>step := MANUAL_DNI, dni := ''12345678''\<rparr>)) = MANUAL_CODE \<and>
   length (dni (init\<lparr>step := MANUAL_DNI, dni := ''abcdefgh''\<rparr>)) = 8 \<and>
   step (dispatch handleDniSubmit (init\<lparr>step := MANUAL_DNI, dni := ''abcdefgh''\<rparr>)) = MANUAL_CODE"
  using handleDniSubmit_length_only [of "init\<lparr>step := MANUAL_DNI, dni := ''1234567''\<rparr>"]
    handleDniSubmit_length_only [of "init\<lparr>step := MANUAL_DNI, dni := ''12345678''\<rparr>"]
    handleDniSubmit_length_only [of "init\<lparr>step := MANUAL_DNI, dni := ''abcdefgh''\<rparr>"]
  by simp

subsection \<open>Going back\<close>

text \<open>
  C7.  The views that offer a way back are those of \<open>FACIAL_RECOGNITION\<close>, \<open>MANUAL_DNI\<close>
  and \<open>MANUAL_CODE\<close>, and invoking it lands on \<open>INITIAL\<close>, \<open>INITIAL\<close> and \<open>MANUAL_DNI\<close>
  respectively, nowhere else.
\<close>

theorem goBack_lands_on_predecessor:
  "(offers_goBack s \<longleftrightarrow> step s \<in> {FACIAL_RECOGNITION, MANUAL_DNI, MANUAL_CODE}) \<and>
   (offers_goBack s \<longrightarrow>
      (step s = FACIAL_RECOGNITION \<and> step (goBack s) = INITIAL) \<or>
      (step s = MANUAL_DNI \<and> step (goBack s) = INITIAL) \<or>
      (step s = MANUAL_CODE \<and> step (goBack s) = MANUAL_DNI))"
  by (simp add: offers_goBack_def goBack_def renderStep_def dispatch_def commit_def
      setStep_def useEffect_step_def)

theorem goBack_lands_on_predecessor_witness:
  "offers_goBack (init\<lparr>step := MANUAL_CODE\<rparr>) \<and>
   step (goBack (init\<lparr>step := MANUAL_CODE\<rparr>)) = MANUAL_DNI \<and>
   offers_goBack (init\<lparr>step := MANUAL_DNI\<rparr>) \<and>
   step (goBack (init\<lparr>step := MANUAL_DNI\<rparr>)) = INITIAL \<and>
   offers_goBack (init\<lparr>step := FACIAL_RECOGNITION\<rparr>) \<and>
   step (goBack (init\<lparr>step := FACIAL_RECOGNITION\<rparr>)) = INITIAL"
  using goBack_lands_on_predecessor [of "init\<lparr>step := MANUAL_CODE\<rparr>"]
    goBack_lands_on_predecessor [of "init\<lparr>step := MANUAL_DNI\<rparr>"]
    goBack_lands_on_predecessor [of "init\<lparr>step := FACIAL_RECOGNITION\<rparr>"]
  by simp

text \<open>
  C10.  Going back changes the step and nothing else: the DNI and every cell of the code
  are kept, from \<open>MANUAL_CODE\<close> to \<open>MANUAL_DNI\<close> as well as from \<open>MANUAL_DNI\<close> to
  \<open>INITIAL\<close>.
\<close>

theorem goBack_changes_step_only:
  "goBack s = s\<lparr>step := step (goBack s)\<rparr> \<and>
   dni (goBack s) = dni s \<and> code (goBack s) = code s \<and>
   (step s = MANUAL_CODE \<longrightarrow> goBack s = s\<lparr>step := MANUAL_DNI\<rparr>) \<and>
   (step s = MANUAL_DNI \<longrightarrow> goBack s = s\<lparr>step := INITIAL\<rparr>)"
  by (simp add: goBack_def renderStep_def dispatch_def commit_def
      setStep_def useEffect_step_def)

theorem goBack_changes_step_only_witness:
  "step (init\<lparr>step := MANUAL_CODE, dni := ''12345678'',
              code := [Some ''1'', Some ''2'', Some [], Some [], Some [], Some []]\<rparr>) = MANUAL_CODE \<and>
   goBack (init\<lparr>step := MANUAL_CODE, dni := ''12345678'',
              code := [Some ''1'', Some ''2'', Some [], Some [], Some [], Some []]\<rparr>) =
     init\<lparr>step := MANUAL_DNI, dni := ''12345678'',
          code := [Some ''1'', Some ''2'', Some [], Some [], Some [], Some []]\<rparr> \<and>
   step (init\<lparr>step := MANUAL_DNI, dni := ''12345678''\<rparr>) = MANUAL_DNI \<and>
   goBack (init\<lparr>step := MANUAL_DNI, dni := ''12345678''\<rparr>) =
     init\<lparr>step := INITIAL, dni := ''12345678''\<rparr>"
  using goBack_changes_step_only [of "init\<lparr>step := MANUAL_CODE, dni := ''12345678'',
              code := [Some ''1'', Some ''2'', Some [], Some [], Some [], Some []]\<rparr>"]
    goBack_changes_step_only [of "init\<lparr>step := MANUAL_DNI, dni := ''12345678''\<rparr>"]
  by simp

subsection \<open>Rendering an unknown step\<close>

text \<open>
  C9.  For a step that is none of the five of \<open>LoginStep\<close>, \<open>renderStep\<close> takes the
  \<open>default\<close> branch and returns \<open>null\<close>.
\<close>

theorem renderStep_default:
  "step s \<notin> {INITIAL, FACIAL_RECOGNITION, MANUAL_DNI, MANUAL_CODE, SUCCESS} \<Longrightarrow>
   renderStep s = None"
  by (simp add: renderStep_def)

theorem renderStep_default_witness:
  "step (init\<lparr>step := ''LOGOUT''\<rparr>) \<notin>
     {INITIAL, FACIAL_RECOGNITION, MANUAL_DNI, MANUAL_CODE, SUCCESS} \<and>
   renderStep (init\<lparr>step := ''LOGOUT''\<rparr>) = None"
proof -
  have a: "step (init\<lparr>step := ''LOGOUT''\<rparr>) \<notin>
     {INITIAL, FACIAL_RECOGNITION, MANUAL_DNI, MANUAL_CODE, SUCCESS}" by simp
  show ?thesis using a renderStep_default [OF a] by simp
qed

subsection \<open>Timeouts are never cancelled\<close>







text \<open>
  With the views that are among the sources alone: the button is enabled again as soon as
  the probe has fired, and the deferred \<open>setStep('SUCCESS')\<close> of a successful probe is as
  little cancelled as the probe.  Going back to \<open>INITIAL\<close> right after the success
  notification still ends in \<open>SUCCESS\<close>.
\<close>

lemma success_redirect_after_going_back:
  "step (run [StartFacial False, Wait 3000, GoBack] init) = INITIAL \<and>
   step (run [StartFacial False, Wait 3000, GoBack, Wait 1500] init) = SUCCESS"
  by code_simp

text \<open>
  While the camera probe is pending and no other outcome has cleared \<open>isLoading\<close>, the
  button stays disabled: pressing "back" one second after the start changes nothing.
\<close>

lemma back_disabled_while_loading:
  "run [StartFacial True, Wait 1000, GoBack] init = run [StartFacial True, Wait 1000] init"
  by code_simp

text \<open>
  C2, as stated, fails.  A first notification is shown at time 0 and a second at time
  1000.  Two expiry events are pending then, not one; the first fires at time 2500 and
  clears the second notification, 1500 ms after it was shown; the second is still to fire.
\<close>

theorem second_notice_cut_short:
  "now two_notices = 1000 \<and>
   notification two_notices = Some (CodeIncorrect, Some error) \<and>
   pending_expiries two_notices = 2 \<and>
   notification (advance 2500 two_notices) = None \<and>
   pending_expiries (advance 2500 two_notices) = 1"
  by code_simp

text \<open>
  C2, amended.  With no other timeout pending, a notification shown less than 2500 ms
  after another replaces it, so only the second is visible; the expiry of the first is
  not cancelled: both expiries are pending, and 2500 ms after the first call the
  notification is gone.
\<close>

theorem showNotification_keeps_first_expiry:
  "timers s = [] \<Longrightarrow> d < 2500 \<Longrightarrow>
   notification (showNotification m2 t2 (advance (now s + d) (showNotification m1 t1 s))) =
     Some (m2, t2) \<and>
   timers (showNotification m2 t2 (advance (now s + d) (showNotification m1 t1 s))) =
     [(now s + 2500, ClearNotification), (now s + d + 2500, ClearNotification)] \<and>
   notification (advance (now s + 2500)
     (showNotification m2 t2 (advance (now s + d) (showNotification m1 t1 s)))) = None"
  by (cases "d = 0")
     (simp_all add: advance_fire advance_wait advance_idle fire_def commit_def
        showNotification_def setTimeout_def)

theorem showNotification_keeps_first_expiry_witness:
  "timers init = [] \<and> (1000::nat) < 2500 \<and>
   notification (showNotification CodeIncorrect (Some error)
     (advance (now init + 1000) (showNotification (SendingCode ''12345678'') (Some info) init))) =
     Some (CodeIncorrect, Some error) \<and>
   notification (advance (now init + 2500)
     (showNotification CodeIncorrect (Some error)
       (advance (now init + 1000) (showNotification (SendingCode ''12345678'') (Some info) init)))) =
     None"
proof -
  have a: "timers init = []" by (simp add: init_def)
  have b: "(1000::nat) < 2500" by simp
  show ?thesis
    using showNotification_keeps_first_expiry
      [OF a b, of CodeIncorrect "Some error" "SendingCode ''12345678''" "Some info"] a
    by simp
qed

end
